theory Spec2Isabelle
  imports Complex_Main
begin

section \<open>Numbers, vectors and Python indexing\<close>

text \<open>
  The controller of \<^verbatim>\<open>controller.py\<close> computes with Python floats and numpy
  \<^verbatim>\<open>float64\<close> arrays. Finite values are idealised as real numbers: rounding and
  overflow are not part of this development. What is kept of IEEE arithmetic is
  the behaviour of numpy's true division on a zero divisor, which does not raise
  but yields an infinity or NaN, and the way those values travel through the
  additions, products and comparisons that follow such a division. A zero
  divisor is taken as \<open>+0\<close>.
\<close>

datatype npfloat = Fin real | PInf | NInf | NaN

definition np_div :: "real \<Rightarrow> real \<Rightarrow> npfloat" where
  "np_div a b =
     (if b \<noteq> 0 then Fin (a / b)
      else if 0 < a then PInf
      else if a < 0 then NInf
      else NaN)"

fun np_add :: "npfloat \<Rightarrow> npfloat \<Rightarrow> npfloat" where
  "np_add (Fin a) (Fin b) = Fin (a + b)"
| "np_add NaN _ = NaN"
| "np_add _ NaN = NaN"
| "np_add PInf NInf = NaN"
| "np_add NInf PInf = NaN"
| "np_add PInf _ = PInf"
| "np_add _ PInf = PInf"
| "np_add NInf _ = NInf"
| "np_add _ NInf = NInf"

fun np_mul :: "npfloat \<Rightarrow> npfloat \<Rightarrow> npfloat" where
  "np_mul (Fin a) (Fin b) = Fin (a * b)"
| "np_mul NaN _ = NaN"
| "np_mul _ NaN = NaN"
| "np_mul PInf (Fin b) = (if 0 < b then PInf else if b < 0 then NInf else NaN)"
| "np_mul NInf (Fin b) = (if 0 < b then NInf else if b < 0 then PInf else NaN)"
| "np_mul (Fin a) PInf = (if 0 < a then PInf else if a < 0 then NInf else NaN)"
| "np_mul (Fin a) NInf = (if 0 < a then NInf else if a < 0 then PInf else NaN)"
| "np_mul PInf PInf = PInf"
| "np_mul PInf NInf = NInf"
| "np_mul NInf PInf = NInf"
| "np_mul NInf NInf = PInf"


text \<open>\<^verbatim>\<open>np.clip(x, lo, hi)\<close> on a finite value.\<close>

definition np_clip :: "real \<Rightarrow> real \<Rightarrow> real \<Rightarrow> real" where
  "np_clip x lo hi = min (max x lo) hi"

type_synonym vec2 = "real \<times> real"
type_synonym vec3 = "real \<times> real \<times> real"
type_synonym npvec3 = "npfloat \<times> npfloat \<times> npfloat"

fun vec2_sub :: "vec2 \<Rightarrow> vec2 \<Rightarrow> vec2" where
  "vec2_sub (a, b) (x, y) = (a - x, b - y)"

fun vec2_add :: "vec2 \<Rightarrow> vec2 \<Rightarrow> vec2" where
  "vec2_add (a, b) (x, y) = (a + x, b + y)"

fun vec2_scale :: "real \<Rightarrow> vec2 \<Rightarrow> vec2" where
  "vec2_scale k (x, y) = (k * x, k * y)"

fun vec3_sub :: "vec3 \<Rightarrow> vec3 \<Rightarrow> vec3" where
  "vec3_sub (a, b, c) (x, y, z) = (a - x, b - y, c - z)"


fun vec3_scale :: "vec3 \<Rightarrow> real \<Rightarrow> vec3" where
  "vec3_scale (x, y, z) k = (x * k, y * k, z * k)"



fun vec3_np_div :: "vec3 \<Rightarrow> real \<Rightarrow> npvec3" where
  "vec3_np_div (x, y, z) d = (np_div x d, np_div y d, np_div z d)"

fun vec3_fin :: "vec3 \<Rightarrow> npvec3" where
  "vec3_fin (x, y, z) = (Fin x, Fin y, Fin z)"

fun npvec3_add :: "npvec3 \<Rightarrow> npvec3 \<Rightarrow> npvec3" where
  "npvec3_add (a, b, c) (x, y, z) = (np_add a x, np_add b y, np_add c z)"

datatype py_error = ValueError | IndexError

text \<open>
  Subscripting a Python list: an index below zero counts from the end, and an
  index outside the list raises \<^verbatim>\<open>IndexError\<close>.
\<close>

definition py_index :: "'a list \<Rightarrow> int \<Rightarrow> py_error + 'a" where
  "py_index xs i =
     (if 0 \<le> i \<and> i < int (length xs) then Inr (xs ! nat i)
      else if i < 0 \<and> - int (length xs) \<le> i then Inr (xs ! nat (int (length xs) + i))
      else Inl IndexError)"

definition and_then :: "py_error + 'a \<Rightarrow> ('a \<Rightarrow> py_error + 'b) \<Rightarrow> py_error + 'b" where
  "and_then r f = (case r of Inl e \<Rightarrow> Inl e | Inr x \<Rightarrow> f x)"

text \<open>
  \<^verbatim>\<open>np.argmin\<close>: the index of the first occurrence of the least element;
  \<^verbatim>\<open>ValueError\<close> on an empty array. \<open>argmin_from xs i b v\<close> scans the rest
  \<open>xs\<close> of the array, whose first element has index \<open>i\<close>, with the least value
  \<open>v\<close> seen so far and its index \<open>b\<close>.
\<close>

fun argmin_from :: "real list \<Rightarrow> nat \<Rightarrow> nat \<Rightarrow> real \<Rightarrow> nat" where
  "argmin_from [] i b v = b"
| "argmin_from (x # xs) i b v =
     (if x < v then argmin_from xs (Suc i) i x else argmin_from xs (Suc i) b v)"

definition np_argmin :: "real list \<Rightarrow> py_error + nat" where
  "np_argmin xs = (case xs of [] \<Rightarrow> Inl ValueError | x # rest \<Rightarrow> Inr (argmin_from rest 1 0 x))"

section \<open>The controller\<close>

definition DRONE_MASS_KG :: real where "DRONE_MASS_KG = 0.5"
definition GRAVITY :: real where "GRAVITY = - 9.81"

text \<open>The attributes of \<^verbatim>\<open>NonlinearController\<close>, set once by \<^verbatim>\<open>__init__\<close>.\<close>

record NonlinearController =
  Kp_lateral_pos :: real
  Kd_lateral_pos :: real
  Kp_alt :: real
  Kd_alt :: real
  Kp_roll :: real
  Kp_pitch :: real
  Kp_yaw :: real
  Kp_p :: real
  Kp_q :: real
  Kp_r :: real

text \<open>\<^verbatim>\<open>NonlinearController()\<close> with the default arguments of \<^verbatim>\<open>__init__\<close>.\<close>

definition init_default :: NonlinearController where
  "init_default =
     \<lparr> Kp_lateral_pos = 6, Kd_lateral_pos = 4,
       Kp_alt = 4.0, Kd_alt = 1.5,
       Kp_roll = 8, Kp_pitch = 8, Kp_yaw = 4.5,
       Kp_p = 20, Kp_q = 20, Kp_r = 5 \<rparr>"

subsection \<open>\<^verbatim>\<open>trajectory_control\<close>\<close>

text \<open>
  The two assignments that close \<^verbatim>\<open>trajectory_control\<close>, for a chosen segment:
  \<^verbatim>\<open>(position1 - position0) * (current_time - time0) / (time1 - time0) + position0\<close>
  and \<^verbatim>\<open>(position1 - position0) / (time1 - time0)\<close>. Both divisions are numpy
  divisions of an array by a scalar.
\<close>

definition position_interp :: "vec3 \<Rightarrow> vec3 \<Rightarrow> real \<Rightarrow> real \<Rightarrow> real \<Rightarrow> npvec3" where
  "position_interp position0 position1 time0 time1 current_time =
     npvec3_add
       (vec3_np_div (vec3_scale (vec3_sub position1 position0) (current_time - time0))
          (time1 - time0))
       (vec3_fin position0)"

definition velocity_interp :: "vec3 \<Rightarrow> vec3 \<Rightarrow> real \<Rightarrow> real \<Rightarrow> npvec3" where
  "velocity_interp position0 position1 time0 time1 =
     vec3_np_div (vec3_sub position1 position0) (time1 - time0)"

definition trajectory_control ::
  "vec3 list \<Rightarrow> real list \<Rightarrow> real list \<Rightarrow> real \<Rightarrow> py_error + (npvec3 \<times> npvec3 \<times> real)" where
  "trajectory_control position_trajectory yaw_trajectory time_trajectory current_time =
     and_then (np_argmin (map (\<lambda>t. \<bar>t - current_time\<bar>) time_trajectory)) (\<lambda>ind_min.
     and_then (py_index time_trajectory (int ind_min)) (\<lambda>time_ref.
     and_then
       (if current_time < time_ref then
          and_then (py_index position_trajectory (int ind_min - 1)) (\<lambda>position0.
          and_then (py_index position_trajectory (int ind_min)) (\<lambda>position1.
          and_then (py_index time_trajectory (int ind_min - 1)) (\<lambda>time0.
          and_then (py_index time_trajectory (int ind_min)) (\<lambda>time1.
          and_then (py_index yaw_trajectory (int ind_min - 1)) (\<lambda>yaw_cmd.
          Inr (position0, position1, time0, time1, yaw_cmd))))))
        else
          and_then (py_index yaw_trajectory (int ind_min)) (\<lambda>yaw_cmd.
          if int ind_min \<ge> int (length position_trajectory) - 1 then
            and_then (py_index position_trajectory (int ind_min)) (\<lambda>position0.
            and_then (py_index position_trajectory (int ind_min)) (\<lambda>position1.
            Inr (position0, position1, 0, 1, yaw_cmd)))
          else
            and_then (py_index position_trajectory (int ind_min)) (\<lambda>position0.
            and_then (py_index position_trajectory (int ind_min + 1)) (\<lambda>position1.
            and_then (py_index time_trajectory (int ind_min)) (\<lambda>time0.
            and_then (py_index time_trajectory (int ind_min + 1)) (\<lambda>time1.
            Inr (position0, position1, time0, time1, yaw_cmd)))))))
       (\<lambda>(position0, position1, time0, time1, yaw_cmd).
          Inr (position_interp position0 position1 time0 time1 current_time,
               velocity_interp position0 position1 time0 time1,
               yaw_cmd))))"

subsection \<open>\<^verbatim>\<open>lateral_position_control\<close>\<close>

definition lateral_position_control ::
  "NonlinearController \<Rightarrow> vec2 \<Rightarrow> vec2 \<Rightarrow> vec2 \<Rightarrow> vec2 \<Rightarrow> vec2 \<Rightarrow> vec2" where
  "lateral_position_control self local_position_cmd local_velocity_cmd local_position
       local_velocity acceleration_ff =
     (let lateral_pos_error = vec2_sub local_position_cmd local_position;
          p_term = vec2_scale (Kp_lateral_pos self) lateral_pos_error;
          lateral_pos_dot_error = vec2_sub local_velocity_cmd local_velocity;
          d_term = vec2_scale (Kd_lateral_pos self) lateral_pos_dot_error;
          acc_cmd = vec2_add (vec2_add p_term d_term) acceleration_ff
      in acc_cmd)"

subsection \<open>\<^verbatim>\<open>altitude_control\<close>\<close>


subsection \<open>\<^verbatim>\<open>roll_pitch_controller\<close>\<close>

text \<open>
  \<^verbatim>\<open>euler2RM\<close> is imported from \<^verbatim>\<open>frame_utils\<close> and is a parameter here:
  \<open>euler2RM roll pitch yaw (i, j)\<close> is the entry \<^verbatim>\<open>rot_mat[i,j]\<close>. In the first
  branch \<open>c\<close> is negative, so the division by \<open>c\<close> is a division of reals.
\<close>

definition roll_pitch_controller ::
  "(real \<Rightarrow> real \<Rightarrow> real \<Rightarrow> nat \<times> nat \<Rightarrow> real) \<Rightarrow> NonlinearController \<Rightarrow> vec2 \<Rightarrow> vec3 \<Rightarrow> real
     \<Rightarrow> npfloat \<times> npfloat" where
  "roll_pitch_controller euler2RM self acceleration_cmd attitude thrust_cmd =
     (if thrust_cmd > 0 then
        (let c = - 1 * thrust_cmd / DRONE_MASS_KG;
             b_x_c_target = np_clip (fst acceleration_cmd / c) (- 1) 1;
             b_y_c_target = np_clip (snd acceleration_cmd / c) (- 1) 1;
             rot_mat = euler2RM (fst attitude) (fst (snd attitude)) (snd (snd attitude));
             b_x = rot_mat (0, 2);
             b_x_err = b_x_c_target - b_x;
             b_x_p_term = Kp_roll self * b_x_err;
             b_y = rot_mat (1, 2);
             b_y_err = b_y_c_target - b_y;
             b_y_p_term = Kp_pitch self * b_y_err;
             b_x_cmd_dot = b_x_p_term;
             b_y_cmd_dot = b_y_p_term;
             m00 = np_div (rot_mat (1, 0)) (rot_mat (2, 2));
             m01 = np_div (- rot_mat (0, 0)) (rot_mat (2, 2));
             m10 = np_div (rot_mat (1, 1)) (rot_mat (2, 2));
             m11 = np_div (- rot_mat (0, 1)) (rot_mat (2, 2));
             p_c = np_add (np_mul m00 (Fin b_x_cmd_dot)) (np_mul m01 (Fin b_y_cmd_dot));
             q_c = np_add (np_mul m10 (Fin b_x_cmd_dot)) (np_mul m11 (Fin b_y_cmd_dot))
         in (p_c, q_c))
      else (Fin 0, Fin 0))"

subsection \<open>\<^verbatim>\<open>body_rate_control\<close>\<close>


subsection \<open>\<^verbatim>\<open>yaw_control\<close>\<close>



section \<open>Reference definitions for the stated properties\<close>

text \<open>
  The yaw error ``wrapped into \<open>(-\<pi>, \<pi>]\<close> by subtracting or adding \<open>2\<pi>\<close>'': the
  one value of that interval that differs from \<open>e\<close> by a whole number of turns.
  \<open>yaw_control_spec\<close> is the yaw law read with this wrap, to be compared with
  \<open>yaw_control\<close>.
\<close>

definition wrap_to_pi :: "real \<Rightarrow> real" where
  "wrap_to_pi e = e - 2 * pi * of_int \<lceil>(e - pi) / (2 * pi)\<rceil>"



section \<open>Auxiliary facts\<close>

subsection \<open>Bounds on \<open>\<pi>\<close>\<close>




subsection \<open>Wrapping and clipping\<close>

lemma wrap_to_pi_range: "- pi < wrap_to_pi e \<and> wrap_to_pi e \<le> pi"
proof -
  define k where "k = \<lceil>(e - pi) / (2 * pi)\<rceil>"
  have "of_int k - 1 < (e - pi) / (2 * pi)" "(e - pi) / (2 * pi) \<le> of_int k"
    unfolding k_def by linarith+
  then have "(of_int k - 1) * (2 * pi) < e - pi" "e - pi \<le> of_int k * (2 * pi)"
    by (simp_all add: pos_less_divide_eq pos_divide_le_eq)
  then show ?thesis
    unfolding wrap_to_pi_def k_def [symmetric] by (simp add: algebra_simps)
qed




subsection \<open>Rescaling a vector by its norm\<close>


subsection \<open>The nearest sample\<close>



subsection \<open>Indexing and the branches of \<^verbatim>\<open>trajectory_control\<close>\<close>



lemma py_index_minus_one: "xs \<noteq> [] \<Longrightarrow> py_index xs (- 1) = Inr (last xs)"
proof -
  assume ne: "xs \<noteq> []"
  then have "nat (int (length xs) + - 1) = length xs - 1"
    by (cases xs) simp_all
  with ne show ?thesis
    by (simp add: py_index_def last_conv_nth Suc_le_eq)
qed








lemma trajectory_control_backward_first:
  assumes "np_argmin (map (\<lambda>t. \<bar>t - current_time\<bar>) time_trajectory) = Inr 0"
    and "length position_trajectory = length time_trajectory"
    and "length yaw_trajectory = length time_trajectory"
    and "time_trajectory \<noteq> []"
    and "current_time < time_trajectory ! 0"
  shows "trajectory_control position_trajectory yaw_trajectory time_trajectory current_time =
    Inr (position_interp (last position_trajectory) (position_trajectory ! 0)
           (last time_trajectory) (time_trajectory ! 0) current_time,
         velocity_interp (last position_trajectory) (position_trajectory ! 0)
           (last time_trajectory) (time_trajectory ! 0),
         last yaw_trajectory)"
proof -
  have ne: "position_trajectory \<noteq> []" "yaw_trajectory \<noteq> []"
    using assms(2,3,4) by auto
  have z: "py_index time_trajectory 0 = Inr (time_trajectory ! 0)"
      "py_index position_trajectory 0 = Inr (position_trajectory ! 0)"
    using assms(4) ne by (simp_all add: py_index_def)
  show ?thesis
    unfolding trajectory_control_def assms(1)
    using z assms(4,5) ne
    by (simp add: and_then_def py_index_minus_one)
qed

lemma trajectory_control_single_sample_hold:
  "t \<le> current_time \<Longrightarrow>
     trajectory_control [p] [y] [t] current_time = Inr (vec3_fin p, (Fin 0, Fin 0, Fin 0), y)"
  by (cases p)
    (simp add: trajectory_control_def np_argmin_def and_then_def py_index_def
      position_interp_def velocity_interp_def np_div_def)

lemma trajectory_control_single_sample_nan:
  "current_time < t \<Longrightarrow>
     trajectory_control [p] [y] [t] current_time = Inr ((NaN, NaN, NaN), (NaN, NaN, NaN), y)"
  by (cases p)
    (simp add: trajectory_control_def np_argmin_def and_then_def py_index_def
      position_interp_def velocity_interp_def np_div_def)

section \<open>Properties of the controller\<close>

subsection \<open>\<^verbatim>\<open>altitude_control\<close>\<close>




subsection \<open>\<^verbatim>\<open>yaw_control\<close>\<close>




subsection \<open>\<^verbatim>\<open>body_rate_control\<close>\<close>



subsection \<open>\<^verbatim>\<open>roll_pitch_controller\<close>\<close>

text \<open>
  C5: for every acceleration command and attitude, a thrust command that is zero
  or negative makes \<open>roll_pitch_controller\<close> return the rate command \<open>(0, 0)\<close>.
\<close>

theorem roll_pitch_controller_no_thrust:
  "thrust_cmd \<le> 0 \<Longrightarrow>
     roll_pitch_controller euler2RM self acceleration_cmd attitude thrust_cmd = (Fin 0, Fin 0)"
  by (simp add: roll_pitch_controller_def)

theorem roll_pitch_controller_no_thrust_witness:
  "(0::real) \<le> 0 \<and>
     roll_pitch_controller (\<lambda>r p y ij. 1) init_default (1, 2) (0, 0, 0) 0 = (Fin 0, Fin 0)"
  using roll_pitch_controller_no_thrust [of 0 "\<lambda>r p y ij. 1" init_default "(1, 2)" "(0, 0, 0)"]
  by simp

subsection \<open>\<^verbatim>\<open>lateral_position_control\<close>\<close>

text \<open>
  C8: \<open>lateral_position_control\<close> returns, in each of the two components,
  \<open>Kp_lateral_pos * (position_cmd - position) + Kd_lateral_pos * (velocity_cmd - velocity)
  + acceleration_ff\<close>, with nothing clamped; with no position error, no velocity
  error and no feedforward it returns the zero vector.
\<close>

theorem lateral_position_control_pd:
  "lateral_position_control self (pcx, pcy) (vcx, vcy) (px, py) (vx, vy) (ffx, ffy) =
     (Kp_lateral_pos self * (pcx - px) + Kd_lateral_pos self * (vcx - vx) + ffx,
      Kp_lateral_pos self * (pcy - py) + Kd_lateral_pos self * (vcy - vy) + ffy)
   \<and> lateral_position_control self p v p v (0, 0) = (0, 0)"
  by (cases p; cases v) (simp add: lateral_position_control_def)

subsection \<open>\<^verbatim>\<open>trajectory_control\<close>\<close>

text \<open>
  C6: on the trajectory with positions \<open>[0,0,0]\<close> at time 0 and \<open>[10,0,-5]\<close> at
  time 5, both yaws 0, the query at time 2.5 returns the position command
  \<open>[5, 0, -2.5]\<close>, the velocity command \<open>[2, 0, -1]\<close> and the yaw command 0.
\<close>

theorem trajectory_control_two_samples:
  "trajectory_control [(0, 0, 0), (10, 0, - 5)] [0, 0] [0, 5] 2.5 =
     Inr ((Fin 5, Fin 0, Fin (- 2.5)), (Fin 2, Fin 0, Fin (- 1)), 0)"
  by (simp add: trajectory_control_def np_argmin_def and_then_def py_index_def
      position_interp_def velocity_interp_def np_div_def)

text \<open>
  C3: a trajectory of one sample should give that sample's position and yaw at
  every query time. It does from the sample's time on
  (\<open>trajectory_control_single_sample_hold\<close>). Before it, the branch for an
  earlier query reads index \<open>-1\<close>, which is the same sample, so both segment times
  are equal and the interpolation divides zero by zero: for the sample
  \<open>([1,2,3], 0.5, 1)\<close> queried at time 0 the position command is NaN in every
  component.
\<close>

theorem trajectory_control_single_sample_before:
  "trajectory_control [(1, 2, 3)] [0.5] [1] 0 =
     Inr ((NaN, NaN, NaN), (NaN, NaN, NaN), 0.5)"
  by (simp add: trajectory_control_def np_argmin_def and_then_def py_index_def
      position_interp_def velocity_interp_def np_div_def)




text \<open>
  C9: for a trajectory of at least two samples, when the nearest index is 0 and
  the query time is before the first sample's time, the earlier end of the
  segment is the last sample (index \<open>-1\<close>): position and velocity commands
  interpolate the segment from the last sample to the first, and the yaw command
  is the last sample's yaw.
\<close>

theorem trajectory_control_before_start:
  assumes "2 \<le> length time_trajectory"
    and "length position_trajectory = length time_trajectory"
    and "length yaw_trajectory = length time_trajectory"
    and "np_argmin (map (\<lambda>t. \<bar>t - current_time\<bar>) time_trajectory) = Inr 0"
    and "current_time < time_trajectory ! 0"
  shows "trajectory_control position_trajectory yaw_trajectory time_trajectory current_time =
    Inr (position_interp (last position_trajectory) (position_trajectory ! 0)
           (last time_trajectory) (time_trajectory ! 0) current_time,
         velocity_interp (last position_trajectory) (position_trajectory ! 0)
           (last time_trajectory) (time_trajectory ! 0),
         last yaw_trajectory)"
proof -
  have "time_trajectory \<noteq> []"
    using assms(1) by auto
  then show ?thesis
    using assms(4,2,3) assms(5) by (intro trajectory_control_backward_first)
qed

text \<open>
  With samples at times 1 and 2 and a query at time 0, the segment runs from
  \<open>[1,1,1]\<close> at time 2 back to \<open>[0,0,0]\<close> at time 1, and the yaw is that of the
  sample at time 2.
\<close>

theorem trajectory_control_before_start_witness:
  "2 \<le> length [1, 2 :: real]
   \<and> length [(0, 0, 0), (1, 1, 1 :: real)] = length [1, 2 :: real]
   \<and> length [7, 8 :: real] = length [1, 2 :: real]
   \<and> np_argmin (map (\<lambda>t. \<bar>t - 0\<bar>) [1, 2 :: real]) = Inr 0
   \<and> (0::real) < [1, 2] ! 0
   \<and> trajectory_control [(0, 0, 0), (1, 1, 1)] [7, 8] [1, 2] 0 =
       Inr ((Fin (- 1), Fin (- 1), Fin (- 1)), (Fin 1, Fin 1, Fin 1), 8)"
proof -
  have a: "np_argmin (map (\<lambda>t. \<bar>t - 0\<bar>) [1, 2 :: real]) = Inr 0"
    by (simp add: np_argmin_def)
  have "trajectory_control [(0, 0, 0), (1, 1, 1)] [7, 8] [1, 2] 0 =
    Inr (position_interp (last [(0, 0, 0), (1, 1, 1)]) ([(0, 0, 0), (1, 1, 1)] ! 0)
           (last [1, 2]) ([1, 2] ! 0) 0,
         velocity_interp (last [(0, 0, 0), (1, 1, 1)]) ([(0, 0, 0), (1, 1, 1)] ! 0)
           (last [1, 2]) ([1, 2] ! 0),
         last [7, 8])"
    using a by (intro trajectory_control_before_start) simp_all
  then show ?thesis
    using a by (simp add: position_interp_def velocity_interp_def np_div_def)
qed



end
